theory Spec2Isabelle
  imports Complex_Main "HOL-Library.Char_ord" "HOL-Library.List_Lexorder"
begin

section \<open>Values of the host language\<close>

text \<open>
  The SDK is JavaScript. Its plain data (API responses, feature maps, metadata) is modelled
  by the datatype \<open>json\<close>. A string is a list of code units below 256; a number is a
  rational standing for the double it denotes; an object is the list of its own properties
  in insertion order, and the keys of an object are pairwise distinct.
  Timestamps are epoch seconds (\<open>Date.now() / 1000\<close>) and are rationals as well; every
  function that reads the clock takes the reading \<open>now\<close> as an argument.
\<close>

datatype json =
    JNull
  | JBool bool
  | JNum rat
  | JStr string
  | JArr "json list"
  | JObj "(string \<times> json) list"

text \<open>\<open>ToBoolean\<close>: the test performed by \<open>if (x)\<close>, \<open>x && y\<close>, \<open>x || y\<close> and \<open>!x\<close>.\<close>

fun truthy :: "json \<Rightarrow> bool" where
  "truthy JNull = False"
| "truthy (JBool b) = b"
| "truthy (JNum r) = (r \<noteq> 0)"
| "truthy (JStr s) = (s \<noteq> [])"
| "truthy (JArr xs) = True"
| "truthy (JObj kvs) = True"

text \<open>A property that may be \<open>undefined\<close> is an option; \<open>undefined\<close> is falsy.\<close>

definition truthy_opt :: "json option \<Rightarrow> bool" where
  "truthy_opt v = (case v of None \<Rightarrow> False | Some j \<Rightarrow> truthy j)"

text \<open>\<open>x || null\<close> and \<open>x || {}\<close> on a possibly undefined property.\<close>

definition or_else :: "json option \<Rightarrow> json \<Rightarrow> json" where
  "or_else v d = (case v of None \<Rightarrow> d | Some j \<Rightarrow> if truthy j then j else d)"

text \<open>\<open>x || d\<close> on a number that may be absent: zero is falsy.\<close>

definition num_or :: "rat option \<Rightarrow> rat \<Rightarrow> rat" where
  "num_or v d = (case v of None \<Rightarrow> d | Some r \<Rightarrow> if r \<noteq> 0 then r else d)"

text \<open>\<open>x || null\<close> on a number or on a string: the falsy values collapse to \<open>null\<close>.\<close>

definition num_or_null :: "rat option \<Rightarrow> rat option" where
  "num_or_null v = (case v of None \<Rightarrow> None | Some r \<Rightarrow> if r \<noteq> 0 then Some r else None)"

definition str_or_null :: "string option \<Rightarrow> string option" where
  "str_or_null v = (case v of None \<Rightarrow> None | Some s \<Rightarrow> if s \<noteq> [] then Some s else None)"

text \<open>
  \<open>String.prototype.toLowerCase\<close> on code units below 256: the ASCII capitals and the
  Latin-1 capitals (all of \<open>0xC0..0xDE\<close> but the multiplication sign) move up by 32.
\<close>

definition char_toLowerCase :: "char \<Rightarrow> char" where
  "char_toLowerCase c =
     (let n = (of_char c :: nat)
      in if (65 \<le> n \<and> n \<le> 90) \<or> (192 \<le> n \<and> n \<le> 222 \<and> n \<noteq> 215)
         then char_of (n + 32) else c)"

definition toLowerCase :: "string \<Rightarrow> string" where
  "toLowerCase s = map char_toLowerCase s"

section \<open>Objects: property order, assignment, serialisation\<close>

text \<open>Decimal digits of a natural number (array indices, integer-valued numbers).\<close>

fun nat_toString :: "nat \<Rightarrow> string" where
  "nat_toString n =
     (if n < 10 then [char_of (48 + n)]
      else nat_toString (n div 10) @ [char_of (48 + n mod 10)])"

declare nat_toString.simps [simp del]

text \<open>
  An own property key is an array index when it is the canonical decimal numeral of an
  integer below \<open>2^32 - 1 = 4294967295\<close>. The engine enumerates the array-index keys of
  an object first, in ascending numeric order, and the other keys after them in insertion
  order; \<open>Object.keys\<close>, \<open>Object.assign\<close>, spread and \<open>JSON.stringify\<close> all follow this
  order.
\<close>

definition is_digit :: "char \<Rightarrow> bool" where
  "is_digit c = (48 \<le> (of_char c :: nat) \<and> (of_char c :: nat) \<le> 57)"

definition digits_value :: "string \<Rightarrow> int" where
  "digits_value s = foldl (\<lambda>acc c. 10 * acc + ((of_char c :: int) - 48)) 0 s"

definition is_array_index :: "string \<Rightarrow> bool" where
  "is_array_index s =
     (s \<noteq> [] \<and> list_all is_digit s \<and> (s = ''0'' \<or> hd s \<noteq> CHR ''0'')
      \<and> digits_value s < 4294967295)"

definition property_order :: "(string \<times> 'a) list \<Rightarrow> (string \<times> 'a) list" where
  "property_order kvs =
     sort_key (\<lambda>kv. digits_value (fst kv)) (filter (\<lambda>kv. is_array_index (fst kv)) kvs)
     @ filter (\<lambda>kv. \<not> is_array_index (fst kv)) kvs"

definition Object_keys :: "(string \<times> 'a) list \<Rightarrow> string list" where
  "Object_keys kvs = map fst (property_order kvs)"

text \<open>\<open>obj[k] = v\<close>: an existing key keeps its place, a new key goes last.\<close>

definition obj_set :: "string \<Rightarrow> 'a \<Rightarrow> (string \<times> 'a) list \<Rightarrow> (string \<times> 'a) list" where
  "obj_set k v kvs =
     (if k \<in> fst ` set kvs then map (\<lambda>kv. if fst kv = k then (k, v) else kv) kvs
      else kvs @ [(k, v)])"

text \<open>\<open>delete obj[k]\<close>.\<close>

definition obj_delete :: "string \<Rightarrow> (string \<times> 'a) list \<Rightarrow> (string \<times> 'a) list" where
  "obj_delete k kvs = filter (\<lambda>kv. fst kv \<noteq> k) kvs"

text \<open>
  \<open>x.k\<close> on a truthy value (the code tests \<open>x\<close> before it reads \<open>x.k\<close>): only objects
  have the properties the SDK asks for.
\<close>

fun get_prop :: "json \<Rightarrow> string \<Rightarrow> json option" where
  "get_prop (JObj kvs) k = map_of kvs k"
| "get_prop _ k = None"

text \<open>
  The own enumerable string-keyed properties of a value, in enumeration order: what
  \<open>Object.assign(target, source)\<close> copies from \<open>source\<close>. An array contributes its
  indices, a string its characters, the other primitives nothing.
\<close>

fun own_entries :: "json \<Rightarrow> (string \<times> json) list" where
  "own_entries (JObj kvs) = property_order kvs"
| "own_entries (JArr xs) = zip (map nat_toString [0 ..< length xs]) xs"
| "own_entries (JStr s) = zip (map nat_toString [0 ..< length s]) (map (\<lambda>c. JStr [c]) s)"
| "own_entries _ = []"

definition Object_assign :: "(string \<times> json) list \<Rightarrow> json \<Rightarrow> (string \<times> json) list" where
  "Object_assign target source = foldl (\<lambda>acc kv. obj_set (fst kv) (snd kv) acc) target (own_entries source)"

section \<open>EntitlementState\<close>

datatype state_kind = STATE_ACTIVE | STATE_GRACE | STATE_RESTRICTED | STATE_INVALID

text \<open>
  The nested \<open>license\<close> object of a payload, with the four properties the class reads.
\<close>

record license_info =
  license_status :: "string option"
  license_features :: "json option"
  activations_limit :: "json option"
  activations_count :: "json option"

text \<open>
  The plain object handed to the constructor. One record covers the keys of both shapes the
  constructor receives: a normalised payload (\<open>valid\<close>, \<open>status\<close>, \<open>features\<close>, ...) and the
  object written by \<open>toObject\<close> and kept in the cache (\<open>state\<close>, \<open>capabilities\<close>,
  \<open>signature\<close>, ...). \<open>None\<close> is a key that is absent, \<open>undefined\<close> or \<open>null\<close>; the
  code tells these apart nowhere but in serialisation. Fields carry the types the API
  documents: status and signature are strings, the validity bounds are numbers.
\<close>

record payload =
  valid :: "json option"
  status :: "string option"
  features :: "json option"
  license :: "license_info option"
  metadata :: "json option"
  valid_from :: "rat option"
  valid_until :: "rat option"
  context_binding :: "string option"
  product_id :: "json option"
  environment :: "json option"
  issued_at :: "rat option"
  revalidation_failed :: "json option"
  last_verified_at :: "rat option"
  state :: "state_kind option"
  capabilities :: "(string \<times> json) list option"
  signature :: "string option"

definition empty_payload :: payload where
  "empty_payload = \<lparr> valid = None, status = None, features = None, license = None,
     metadata = None, valid_from = None, valid_until = None, context_binding = None,
     product_id = None, environment = None, issued_at = None, revalidation_failed = None,
     last_verified_at = None, state = None, capabilities = None, signature = None \<rparr>"

text \<open>
  \<open>determineState\<close>, branch by branch in the order of the source. The branches that follow
  the validity window (the \<open>valid\<close> flag, the revalidation grace, the default) are reached
  from two places and are named \<open>determineState_rest\<close>.
\<close>

definition determineState_rest :: "rat \<Rightarrow> payload \<Rightarrow> state_kind" where
  "determineState_rest now p =
     (if valid p = Some (JBool True) then STATE_ACTIVE
      else if revalidation_failed p = Some (JBool True)
              \<and> (let lastVerified = num_or (last_verified_at p) 0;
                      graceWindow = 72 * 3600
                  in now - lastVerified < graceWindow)
      then STATE_GRACE
      else STATE_ACTIVE)"

definition determineState :: "rat \<Rightarrow> payload \<Rightarrow> state_kind" where
  "determineState now p =
     (if (case status p of None \<Rightarrow> False
          | Some s \<Rightarrow> s \<noteq> []
              \<and> toLowerCase s \<in> set [''revoked'', ''suspended'', ''cancelled''])
      then STATE_INVALID
      else if (case valid_from p of None \<Rightarrow> False | Some f \<Rightarrow> f \<noteq> 0 \<and> now < f)
      then STATE_RESTRICTED
      else (case valid_until p of
              None \<Rightarrow> determineState_rest now p
            | Some u \<Rightarrow>
                if u \<noteq> 0 \<and> now > u
                then (let gracePeriod = 7 * 86400
                      in if now - u < gracePeriod then STATE_GRACE else STATE_RESTRICTED)
                else determineState_rest now p))"

text \<open>The three synthetic capabilities.\<close>

definition determineUpdateCapability :: "payload \<Rightarrow> bool" where
  "determineUpdateCapability p =
     (if valid p = Some (JBool False) then False
      else (case license p of
              None \<Rightarrow> True
            | Some l \<Rightarrow>
                (case license_status l of
                   None \<Rightarrow> True
                 | Some s \<Rightarrow>
                     if s \<noteq> [] \<and> toLowerCase s \<in> set [''revoked'', ''suspended'']
                     then False else True)))"

definition determineTelemetryCapability :: "payload \<Rightarrow> bool" where
  "determineTelemetryCapability p =
     (case features p of
        None \<Rightarrow> True
      | Some f \<Rightarrow>
          if truthy f
          then (case get_prop f ''telemetry'' of None \<Rightarrow> True | Some t \<Rightarrow> truthy t)
          else True)"

definition determineDownloadCapability :: "payload \<Rightarrow> bool" where
  "determineDownloadCapability p =
     (case license p of
        None \<Rightarrow> valid p = Some (JBool True)
      | Some l \<Rightarrow>
          (case license_status l of
             None \<Rightarrow> valid p = Some (JBool True)
           | Some s \<Rightarrow>
               if s \<noteq> []
               then toLowerCase s \<in> set [''active'', ''assigned'', ''available'']
               else valid p = Some (JBool True)))"

text \<open>\<open>typeof x === 'object'\<close> on a truthy value: objects and arrays.\<close>

fun is_object :: "json \<Rightarrow> bool" where
  "is_object (JObj kvs) = True"
| "is_object (JArr xs) = True"
| "is_object _ = False"

text \<open>\<open>if (x !== undefined) { capabilities[k] = x; }\<close>\<close>

definition assign_if_defined ::
  "string \<Rightarrow> json option \<Rightarrow> (string \<times> json) list \<Rightarrow> (string \<times> json) list" where
  "assign_if_defined k x c = (case x of Some v \<Rightarrow> obj_set k v c | None \<Rightarrow> c)"

definition extractCapabilities :: "payload \<Rightarrow> (string \<times> json) list" where
  "extractCapabilities p =
     (let c0 = [];
          c1 = (case features p of
                  Some f \<Rightarrow> if truthy f \<and> is_object f then Object_assign c0 f else c0
                | None \<Rightarrow> c0);
          c2 = (case license p of
                  Some l \<Rightarrow>
                    (case license_features l of
                       Some f \<Rightarrow> if truthy f then Object_assign c1 f else c1
                     | None \<Rightarrow> c1)
                | None \<Rightarrow> c1);
          c3 = obj_set ''updates'' (JBool (determineUpdateCapability p)) c2;
          c4 = obj_set ''telemetry'' (JBool (determineTelemetryCapability p)) c3;
          c5 = obj_set ''downloads'' (JBool (determineDownloadCapability p)) c4;
          c6 = (case license p of
                  Some l \<Rightarrow> assign_if_defined ''max_activations'' (activations_limit l) c5
                | None \<Rightarrow> c5);
          c7 = (case license p of
                  Some l \<Rightarrow> assign_if_defined ''current_activations'' (activations_count l) c6
                | None \<Rightarrow> c6)
      in c7)"

text \<open>
  An instance of the class. The constructor reads the clock for \<open>issuedAt\<close> and
  \<open>lastVerifiedAt\<close>; \<open>validatePayload\<close> accepts every object, and a payload is one.
\<close>

record EntitlementState =
  esState :: state_kind
  esCapabilities :: "(string \<times> json) list"
  esValidFrom :: "rat option"
  esValidUntil :: "rat option"
  esContextBinding :: "string option"
  esProductId :: json
  esEnvironment :: json
  esMetadata :: json
  esSignature :: "string option"
  esIssuedAt :: rat
  esLastVerifiedAt :: rat

definition new_EntitlementState :: "rat \<Rightarrow> payload \<Rightarrow> string option \<Rightarrow> EntitlementState" where
  "new_EntitlementState now p sig =
     \<lparr> esState = determineState now p,
       esCapabilities = extractCapabilities p,
       esValidFrom = num_or_null (valid_from p),
       esValidUntil = num_or_null (valid_until p),
       esContextBinding = str_or_null (context_binding p),
       esProductId = or_else (product_id p) JNull,
       esEnvironment = or_else (environment p) JNull,
       esMetadata = or_else (metadata p) (JObj []),
       esSignature = sig,
       esIssuedAt = num_or (issued_at p) now,
       esLastVerifiedAt = now \<rparr>"

definition hasCapability :: "EntitlementState \<Rightarrow> string \<Rightarrow> bool" where
  "hasCapability es c = (map_of (esCapabilities es) c = Some (JBool True))"

definition isActive :: "EntitlementState \<Rightarrow> bool" where
  "isActive es = (esState es = STATE_ACTIVE)"

definition isInGrace :: "EntitlementState \<Rightarrow> bool" where
  "isInGrace es = (esState es = STATE_GRACE)"

definition allowsOperation :: "EntitlementState \<Rightarrow> bool" where
  "allowsOperation es = (esState es = STATE_ACTIVE \<or> esState es = STATE_GRACE)"

definition needsRevalidation :: "rat \<Rightarrow> EntitlementState \<Rightarrow> rat \<Rightarrow> bool" where
  "needsRevalidation now es revalidationInterval =
     (now - esLastVerifiedAt es > revalidationInterval)"

definition toObject :: "EntitlementState \<Rightarrow> payload" where
  "toObject es = empty_payload \<lparr>
       state := Some (esState es),
       capabilities := Some (esCapabilities es),
       valid_from := esValidFrom es,
       valid_until := esValidUntil es,
       context_binding := esContextBinding es,
       product_id := Some (esProductId es),
       environment := Some (esEnvironment es),
       metadata := Some (esMetadata es),
       signature := esSignature es,
       issued_at := Some (esIssuedAt es),
       last_verified_at := Some (esLastVerifiedAt es) \<rparr>"

section \<open>Failures\<close>

text \<open>
  What the code throws. The module of exception classes declares and exports
  \<open>LicenseError\<close>, the base class (and the class of an API error), and its subclasses
  \<open>ValidationError\<close>, \<open>NetworkError\<close> and \<open>SignatureError\<close>; an instance of each, with its
  message, is written \<open>LicenseException\<close>, \<open>ValidationException\<close>, \<open>NetworkException\<close> and
  \<open>SignatureException\<close> here. \<open>TypeError\<close> and \<open>ReferenceError\<close> are the engine's own
  errors and \<open>PlainError\<close> is a bare \<open>Error\<close>; none of the three is an instance of a class
  of the module.
\<close>

datatype error =
    LicenseException string
  | ValidationException string
  | NetworkException string
  | SignatureException string
  | TypeError string
  | ReferenceError string
  | PlainError string

fun message :: "error \<Rightarrow> string" where
  "message (LicenseException m) = m"
| "message (ValidationException m) = m"
| "message (NetworkException m) = m"
| "message (SignatureException m) = m"
| "message (TypeError m) = m"
| "message (ReferenceError m) = m"
| "message (PlainError m) = m"

datatype exception_class = LicenseError | ValidationError | NetworkError | SignatureError

fun is_instance :: "error \<Rightarrow> exception_class \<Rightarrow> bool" where
  "is_instance (LicenseException m) c = (c = LicenseError)"
| "is_instance (ValidationException m) c = (c = ValidationError \<or> c = LicenseError)"
| "is_instance (NetworkException m) c = (c = NetworkError \<or> c = LicenseError)"
| "is_instance (SignatureException m) c = (c = SignatureError \<or> c = LicenseError)"
| "is_instance (TypeError m) c = False"
| "is_instance (ReferenceError m) c = False"
| "is_instance (PlainError m) c = False"

fun make_exception :: "exception_class \<Rightarrow> string \<Rightarrow> error" where
  "make_exception LicenseError m = LicenseException m"
| "make_exception ValidationError m = ValidationException m"
| "make_exception NetworkError m = NetworkException m"
| "make_exception SignatureError m = SignatureException m"

text \<open>
  The keys of \<open>module.exports\<close> of the module of exception classes that name one of the
  four classes above (its other classes play no part here).
\<close>

definition exceptions_exports :: "string \<rightharpoonup> exception_class" where
  "exceptions_exports =
     [''LicenseError'' \<mapsto> LicenseError, ''ValidationError'' \<mapsto> ValidationError,
      ''NetworkError'' \<mapsto> NetworkError, ''SignatureError'' \<mapsto> SignatureError]"

text \<open>
  What a class name stands for in the module that uses it. A name destructured from
  \<open>require('./exceptions')\<close> is bound to the export of that name, and to \<open>undefined\<close> when
  the module exports no such key. A name the using module neither declares nor imports is
  not bound at all.
\<close>

datatype binding = Undeclared | Undefined | Class exception_class

definition required :: "string \<Rightarrow> binding" where
  "required name = (case exceptions_exports name of Some c \<Rightarrow> Class c | None \<Rightarrow> Undefined)"

text \<open>
  The file of \<open>EntitlementState\<close> has no \<open>require\<close> of the exceptions module and declares
  no class of that kind: every such name is unbound in it. The validator destructures
  \<open>LicenseException\<close>, \<open>ValidationException\<close>, \<open>SignatureException\<close>, \<open>NetworkException\<close>
  and \<open>StateException\<close> from the exceptions module.
\<close>

definition entitlement_state_scope :: "string \<Rightarrow> binding" where
  "entitlement_state_scope name = Undeclared"

definition validator_scope :: "string \<Rightarrow> binding" where
  "validator_scope name =
     (if name \<in> set [''LicenseException'', ''ValidationException'', ''SignatureException'',
                       ''NetworkException'', ''StateException'']
      then required name else Undeclared)"

text \<open>
  \<open>new Name(msg)\<close> and \<open>e instanceof Name\<close> in a scope. On an unbound name the engine
  raises \<open>ReferenceError\<close>; on \<open>undefined\<close> it raises \<open>TypeError\<close>: \<open>undefined\<close> is not
  a constructor, and the right-hand side of \<open>instanceof\<close> is not callable.
\<close>

definition new_exception :: "(string \<Rightarrow> binding) \<Rightarrow> string \<Rightarrow> string \<Rightarrow> error" where
  "new_exception scope name msg =
     (case scope name of
        Class c \<Rightarrow> make_exception c msg
      | Undefined \<Rightarrow> TypeError (name @ '' is not a constructor'')
      | Undeclared \<Rightarrow> ReferenceError (name @ '' is not defined''))"

definition instanceof :: "(string \<Rightarrow> binding) \<Rightarrow> error \<Rightarrow> string \<Rightarrow> error + bool" where
  "instanceof scope e name =
     (case scope name of
        Class c \<Rightarrow> Inr (is_instance e c)
      | Undefined \<Rightarrow> Inl (TypeError ''Right-hand side of instanceof is not callable'')
      | Undeclared \<Rightarrow> Inl (ReferenceError (name @ '' is not defined'')))"

section \<open>SignatureVerifier\<close>

text \<open>
  The platform services the embedding does not define are parameters: the rendering of a
  number by \<open>JSON.stringify\<close>, SHA-256 with hex output, and the milliseconds of
  \<open>new Date(x).getTime()\<close> (\<open>None\<close> for an invalid date, whose time is \<open>NaN\<close>).
\<close>

record platform =
  number_toString :: "rat \<Rightarrow> string"
  sha256_hex :: "string \<Rightarrow> string"
  date_getTime :: "json \<Rightarrow> int option"

text \<open>
  A verifier is identified with the RSA-SHA256 check under its public key: data and signature
  (base64) to a truth value. \<open>verify\<close> adds the guards of the method; on a string
  \<open>Buffer.from(signature, 'base64')\<close> does not throw.
\<close>

type_synonym SignatureVerifier = "string \<Rightarrow> string \<Rightarrow> bool"

definition verify :: "SignatureVerifier \<Rightarrow> string \<Rightarrow> string \<Rightarrow> error + bool" where
  "verify publicKeyCheck data sig =
     (if data = [] then Inl (PlainError ''Data cannot be empty'')
      else if sig = [] then Inl (PlainError ''Signature cannot be empty'')
      else Inr (publicKeyCheck data sig))"

text \<open>\<open>JSON.stringify\<close> without indentation: string quoting, then the value grammar.\<close>

definition hex_digit :: "nat \<Rightarrow> char" where
  "hex_digit n = (if n < 10 then char_of (48 + n) else char_of (87 + n))"

definition quote_char :: "char \<Rightarrow> string" where
  "quote_char c =
     (let n = (of_char c :: nat)
      in if n = 0x22 then [CHR 0x5C, CHR 0x22]
         else if n = 0x5C then [CHR 0x5C, CHR 0x5C]
         else if n = 0x08 then [CHR 0x5C, CHR ''b'']
         else if n = 0x0C then [CHR 0x5C, CHR ''f'']
         else if n = 0x0A then [CHR 0x5C, CHR ''n'']
         else if n = 0x0D then [CHR 0x5C, CHR ''r'']
         else if n = 0x09 then [CHR 0x5C, CHR ''t'']
         else if n < 0x20
         then [CHR 0x5C, CHR ''u'', CHR ''0'', CHR ''0'', hex_digit (n div 16), hex_digit (n mod 16)]
         else [c])"

definition QuoteJSONString :: "string \<Rightarrow> string" where
  "QuoteJSONString s = [CHR 0x22] @ concat (map quote_char s) @ [CHR 0x22]"

fun join :: "string \<Rightarrow> string list \<Rightarrow> string" where
  "join sep [] = []"
| "join sep [x] = x"
| "join sep (x # y # ys) = x @ sep @ join sep (y # ys)"

text \<open>
  The members of an object are rendered first and put in enumeration order after, which
  looks at the keys only.
\<close>

fun JSON_stringify :: "(rat \<Rightarrow> string) \<Rightarrow> json \<Rightarrow> string" where
  "JSON_stringify fmt JNull = ''null''"
| "JSON_stringify fmt (JBool b) = (if b then ''true'' else ''false'')"
| "JSON_stringify fmt (JNum r) = fmt r"
| "JSON_stringify fmt (JStr s) = QuoteJSONString s"
| "JSON_stringify fmt (JArr xs) = ''['' @ join '','' (map (JSON_stringify fmt) xs) @ '']''"
| "JSON_stringify fmt (JObj kvs) =
     ''{''
     @ join '',''
         (map (\<lambda>m. QuoteJSONString (fst m) @ '':'' @ snd m)
            (property_order (map (\<lambda>kv. (fst kv, JSON_stringify fmt (snd kv))) kvs)))
     @ ''}''"

text \<open>
  \<open>sortKeysRecursive\<close>: arrays keep their order; for an object the keys are sorted
  (\<open>Array.prototype.sort\<close> without comparator: by code units, a proper prefix first) and
  assigned one by one to a fresh object. \<open>data\<close> below is the object with the recursion
  already applied to each value, so that \<open>data[key]\<close> is the recursive result for \<open>key\<close>.
\<close>

fun sortKeysRecursive :: "json \<Rightarrow> json" where
  "sortKeysRecursive (JArr xs) = JArr (map sortKeysRecursive xs)"
| "sortKeysRecursive (JObj kvs) =
     (let data = map (\<lambda>kv. (fst kv, sortKeysRecursive (snd kv))) kvs;
          keys = sort (Object_keys data)
      in JObj (foldl (\<lambda>sorted key.
                        case map_of data key of
                          Some v \<Rightarrow> obj_set key v sorted
                        | None \<Rightarrow> sorted)
                 [] keys))"
| "sortKeysRecursive v = v"

definition canonicalizeJson :: "(rat \<Rightarrow> string) \<Rightarrow> json \<Rightarrow> string" where
  "canonicalizeJson fmt data = JSON_stringify fmt (sortKeysRecursive data)"



section \<open>LicenseState\<close>

record LicenseState =
  entitlementState :: EntitlementState
  licenseKey :: "string option"

definition isValid :: "LicenseState \<Rightarrow> bool" where
  "isValid ls = allowsOperation (entitlementState ls)"

definition getState :: "LicenseState \<Rightarrow> state_kind" where
  "getState ls = esState (entitlementState ls)"

definition getMetadata :: "LicenseState \<Rightarrow> json" where
  "getMetadata ls = esMetadata (entitlementState ls)"

section \<open>StateResolver\<close>

record StateResolver =
  resolver_verifier :: "SignatureVerifier option"
  resolver_environment :: json
  resolver_productId :: json

text \<open>
  A response is a JSON object, given by its properties. \<open>verification_payload\<close> is the
  string \<open>verifySignature\<close> hands to the verifier: the spread copy of the response (its
  properties in enumeration order), the \<open>signature\<close> key deleted, through
  \<open>JSON.stringify\<close>.
\<close>

definition verification_payload :: "platform \<Rightarrow> (string \<times> json) list \<Rightarrow> string" where
  "verification_payload rt response =
     (let responseForVerification = obj_delete ''signature'' (property_order response)
      in JSON_stringify (number_toString rt) (JObj responseForVerification))"

definition verifySignature ::
  "platform \<Rightarrow> StateResolver \<Rightarrow> (string \<times> json) list \<Rightarrow> string \<Rightarrow> error + unit" where
  "verifySignature rt r response sig =
     (case resolver_verifier r of
        None \<Rightarrow> Inr ()
      | Some v \<Rightarrow>
          (case verify v (verification_payload rt response) sig of
             Inl e \<Rightarrow> Inl e
           | Inr ok \<Rightarrow>
               if \<not> ok then Inl (SignatureException ''Response signature verification failed'')
               else Inr ()))"

text \<open>
  Typed reads of response properties. A status is a string: on a truthy value of another
  type \<open>toLowerCase\<close> is not a function and the constructor raises \<open>TypeError\<close>. The hash
  input is a string: on a truthy value of another type \<open>update\<close> raises \<open>TypeError\<close>.
  A timestamp is a number.
\<close>

definition string_or_TypeError :: "string \<Rightarrow> json option \<Rightarrow> error + string option" where
  "string_or_TypeError what v =
     (case v of
        None \<Rightarrow> Inr None
      | Some (JStr s) \<Rightarrow> Inr (str_or_null (Some s))
      | Some j \<Rightarrow> if truthy j then Inl (TypeError what) else Inr None)"

definition number_of :: "json option \<Rightarrow> rat option" where
  "number_of v = (case v of Some (JNum r) \<Rightarrow> Some r | _ \<Rightarrow> None)"

definition date_seconds :: "platform \<Rightarrow> json \<Rightarrow> rat option" where
  "date_seconds rt x =
     (case date_getTime rt x of None \<Rightarrow> None | Some ms \<Rightarrow> Some (of_int ms / 1000))"

definition normalizeValidationPayload ::
  "platform \<Rightarrow> (string \<times> json) list \<Rightarrow> error + payload" where
  "normalizeValidationPayload rt response =
     (case (if truthy_opt (map_of response ''data'') then map_of response ''data'' else None) of
        Some data \<Rightarrow>
          (let p0 = empty_payload \<lparr> valid := Some (or_else (get_prop data ''valid'') (JBool False)) \<rparr>
           in if truthy_opt (get_prop data ''license'')
              then (let lic = the (get_prop data ''license'');
                        expires_at = get_prop lic ''expires_at'';
                        activated_at = get_prop lic ''activated_at'';
                        hardware_id = get_prop lic ''hardware_id'';
                        domain = get_prop lic ''domain''
                    in case string_or_TypeError ''hash update: the data argument must be a string''
                              (if truthy_opt hardware_id then hardware_id
                               else if truthy_opt domain then domain else None) of
                         Inl e \<Rightarrow> Inl e
                       | Inr bound \<Rightarrow>
                           (case string_or_TypeError ''payload.status.toLowerCase is not a function''
                                   (get_prop lic ''status'') of
                              Inl e \<Rightarrow> Inl e
                            | Inr st \<Rightarrow>
                                Inr (p0 \<lparr>
                                  status := st,
                                  features := Some (or_else (get_prop lic ''features'') (JObj [])),
                                  metadata := Some (or_else (get_prop lic ''metadata'') (JObj [])),
                                  valid_until :=
                                    (if truthy_opt expires_at then date_seconds rt (the expires_at)
                                     else None),
                                  valid_from :=
                                    (if truthy_opt activated_at then date_seconds rt (the activated_at)
                                     else None),
                                  context_binding := map_option (sha256_hex rt) bound \<rparr>)))
              else Inr p0)
      | None \<Rightarrow>
          (let p0 = empty_payload \<lparr> valid := Some (or_else (map_of response ''valid'') (JBool False)) \<rparr>
           in if truthy_opt (map_of response ''license'')
              then (let lic = the (map_of response ''license'');
                        expires_at = get_prop lic ''expires_at''
                    in case string_or_TypeError ''payload.status.toLowerCase is not a function''
                              (get_prop lic ''status'') of
                         Inl e \<Rightarrow> Inl e
                       | Inr st \<Rightarrow>
                           Inr (p0 \<lparr>
                             status := st,
                             features := Some (or_else (get_prop lic ''features'') (JObj [])),
                             metadata := Some (or_else (get_prop lic ''metadata'') (JObj [])),
                             valid_until :=
                               (if truthy_opt expires_at then date_seconds rt (the expires_at)
                                else None) \<rparr>))
              else Inr p0))"

text \<open>
  \<open>resolveFromValidation\<close>. The signature is looked at first: with a verifier and a truthy
  \<open>signature\<close> the response is verified before anything else is read. A signature is a
  base64 string; on a truthy value of another type the verifier fails to decode it.
\<close>

definition resolveFromValidation ::
  "platform \<Rightarrow> rat \<Rightarrow> StateResolver \<Rightarrow> (string \<times> json) list \<Rightarrow> string option
     \<Rightarrow> error + LicenseState" where
  "resolveFromValidation rt now r response key =
     (case (if truthy_opt (map_of response ''signature'') \<and> resolver_verifier r \<noteq> None
            then (case map_of response ''signature'' of
                    Some (JStr sg) \<Rightarrow>
                      (case verifySignature rt r response sg of
                         Inl e \<Rightarrow> Inl e
                       | Inr u \<Rightarrow> Inr (Some sg))
                  | _ \<Rightarrow> Inl (PlainError ''Invalid base64 signature''))
            else Inr None) of
        Inl e \<Rightarrow> Inl e
      | Inr sig \<Rightarrow>
          (case normalizeValidationPayload rt response of
             Inl e \<Rightarrow> Inl e
           | Inr payload0 \<Rightarrow>
               (let payload = payload0 \<lparr>
                      environment := Some (resolver_environment r),
                      product_id := Some (resolver_productId r),
                      issued_at := Some (num_or (number_of (map_of response ''timestamp'')) now) \<rparr>;
                    entitlementState = new_EntitlementState now payload sig
                in Inr \<lparr> entitlementState = entitlementState, licenseKey = key \<rparr>)))"

definition createRestrictedState ::
  "rat \<Rightarrow> StateResolver \<Rightarrow> string \<Rightarrow> string option \<Rightarrow> LicenseState" where
  "createRestrictedState now r reason key =
     (let payload = empty_payload \<lparr>
            valid := Some (JBool False),
            status := Some ''restricted'',
            metadata := Some (JObj [(''reason'', JStr reason)]),
            issued_at := Some now,
            environment := Some (resolver_environment r),
            product_id := Some (resolver_productId r) \<rparr>;
          entitlementState = new_EntitlementState now payload None
      in \<lparr> entitlementState = entitlementState, licenseKey = key \<rparr>)"

definition createGraceState ::
  "rat \<Rightarrow> StateResolver \<Rightarrow> payload \<Rightarrow> string option \<Rightarrow> LicenseState" where
  "createGraceState now r lastValidState key =
     (let payload = lastValidState \<lparr>
            revalidation_failed := Some (JBool True),
            last_verified_at := Some (num_or (last_verified_at lastValidState) now) \<rparr>;
          sig = str_or_null (signature lastValidState);
          entitlementState = new_EntitlementState now payload sig
      in \<lparr> entitlementState = entitlementState, licenseKey = key \<rparr>)"

section \<open>StateStore\<close>

record cached_entry =
  entry_state :: payload
  expiresAt :: rat

record StateStore =
  store :: "string \<rightharpoonup> cached_entry"
  store_verifier :: "SignatureVerifier option"
  defaultTtl :: rat

definition state_name :: "state_kind \<Rightarrow> string" where
  "state_name k =
     (case k of STATE_ACTIVE \<Rightarrow> ''ACTIVE'' | STATE_GRACE \<Rightarrow> ''GRACE''
      | STATE_RESTRICTED \<Rightarrow> ''RESTRICTED'' | STATE_INVALID \<Rightarrow> ''INVALID'')"

text \<open>
  The cache holds objects written by \<open>toObject\<close>. \<open>dataWithoutSig\<close> is such an object
  as JSON, without its \<open>signature\<close> key: the other ten keys in the order \<open>toObject\<close>
  writes them, \<open>null\<close> where the field is \<open>null\<close>.
\<close>

definition dataWithoutSig :: "payload \<Rightarrow> json" where
  "dataWithoutSig c =
     (let num = (\<lambda>v. case v of None \<Rightarrow> JNull | Some r \<Rightarrow> JNum r);
          str = (\<lambda>v. case v of None \<Rightarrow> JNull | Some s \<Rightarrow> JStr s);
          val = (\<lambda>v. case v of None \<Rightarrow> JNull | Some j \<Rightarrow> j)
      in JObj
          [(''state'', str (map_option state_name (state c))),
           (''capabilities'', (case capabilities c of None \<Rightarrow> JNull | Some kvs \<Rightarrow> JObj kvs)),
           (''valid_from'', num (valid_from c)),
           (''valid_until'', num (valid_until c)),
           (''context_binding'', str (context_binding c)),
           (''product_id'', val (product_id c)),
           (''environment'', val (environment c)),
           (''metadata'', val (metadata c)),
           (''issued_at'', num (issued_at c)),
           (''last_verified_at'', num (last_verified_at c))])"

text \<open>
  \<open>fromCache\<close>. Both of its \<open>throw\<close> statements construct \<open>SignatureError\<close>, a name that
  is unbound in the file of the class.
\<close>

definition fromCache ::
  "platform \<Rightarrow> rat \<Rightarrow> payload \<Rightarrow> SignatureVerifier option \<Rightarrow> error + EntitlementState" where
  "fromCache rt now cachedData verifier =
     (case str_or_null (signature cachedData) of
        None \<Rightarrow>
          Inl (new_exception entitlement_state_scope ''SignatureError''
                 ''Cached state missing signature'')
      | Some sig \<Rightarrow>
          (case (case verifier of
                   None \<Rightarrow> Inr ()
                 | Some v \<Rightarrow>
                     (let payload = JSON_stringify (number_toString rt) (dataWithoutSig cachedData)
                      in case verify v payload sig of
                           Inl e \<Rightarrow> Inl e
                         | Inr ok \<Rightarrow>
                             if \<not> ok
                             then Inl (new_exception entitlement_state_scope ''SignatureError''
                                         ''Cached state signature verification failed'')
                             else Inr ())) of
             Inl e \<Rightarrow> Inl e
           | Inr u \<Rightarrow> Inr (new_EntitlementState now cachedData (signature cachedData))))"

definition StateStore_set ::
  "rat \<Rightarrow> StateStore \<Rightarrow> string \<Rightarrow> EntitlementState \<Rightarrow> rat option \<Rightarrow> StateStore" where
  "StateStore_set now st key es ttl =
     (let ttl' = num_or ttl (defaultTtl st)
      in st \<lparr> store := (store st)(key \<mapsto> \<lparr> entry_state = toObject es, expiresAt = now + ttl' \<rparr>) \<rparr>)"

text \<open>\<open>get\<close> returns its result (\<open>None\<close> for \<open>null\<close>) or the exception, and the store after.\<close>

definition StateStore_get ::
  "platform \<Rightarrow> rat \<Rightarrow> StateStore \<Rightarrow> string
     \<Rightarrow> (error + EntitlementState option) \<times> StateStore" where
  "StateStore_get rt now st key =
     (case store st key of
        None \<Rightarrow> (Inr None, st)
      | Some cached \<Rightarrow>
          if expiresAt cached < now
          then (Inr None, st \<lparr> store := (store st)(key := None) \<rparr>)
          else (case fromCache rt now (entry_state cached) (store_verifier st) of
                  Inr es \<Rightarrow> (Inr (Some es), st)
                | Inl error \<Rightarrow> (Inl error, st \<lparr> store := (store st)(key := None) \<rparr>)))"

definition getValidationKey :: "string \<Rightarrow> string" where
  "getValidationKey k = ''entitlement:'' @ k @ '':validation''"

section \<open>LicenseValidator\<close>

text \<open>
  The validator with the collaborators that matter here: the cache switch of the
  configuration, the state store and the resolver. \<open>validateLicense\<close> (response cache and
  HTTP client) is outside the embedding; its outcome for the call, a response or an
  exception, is an argument.
\<close>

record LicenseValidator =
  isCacheEnabled :: bool
  stateStore :: StateStore
  stateResolver :: StateResolver

definition is_whitespace :: "char \<Rightarrow> bool" where
  "is_whitespace c = ((of_char c :: nat) \<in> {9, 10, 11, 12, 13, 32, 160})"

definition trim :: "string \<Rightarrow> string" where
  "trim s = rev (dropWhile is_whitespace (rev (dropWhile is_whitespace s)))"

definition validateLicenseKey :: "string \<Rightarrow> error + unit" where
  "validateLicenseKey k =
     (if k = [] \<or> trim k = []
      then Inl (new_exception validator_scope ''ValidationException''
                  ''License key cannot be empty'')
      else Inr ())"

text \<open>
  \<open>EntitlementState\<close> declares \<open>toObject\<close> and no \<open>toArray\<close>: the call
  \<open>cachedState.toArray()\<close> raises \<open>TypeError\<close>.
\<close>

definition toArray :: "EntitlementState \<Rightarrow> error + payload" where
  "toArray es = Inl (TypeError ''cachedState.toArray is not a function'')"

text \<open>
  The inner \<open>catch (se)\<close> of the handler below: it tests \<open>se instanceof SignatureException\<close>,
  has an empty body and no \<open>throw\<close>; after it the handler throws the original exception
  \<open>e\<close>. An exception of the test itself leaves the handler.
\<close>

definition inner_catch ::
  "StateStore \<Rightarrow> error \<Rightarrow> error \<Rightarrow> (error + LicenseState) \<times> StateStore" where
  "inner_catch st e se =
     (case instanceof validator_scope se ''SignatureException'' of
        Inl raised \<Rightarrow> (Inl raised, st)
      | Inr b \<Rightarrow> (Inl e, st))"

text \<open>
  The handler of the outer \<open>catch (e)\<close> in \<open>resolveLicenseState\<close>: it tests
  \<open>e instanceof NetworkException\<close>; on a network exception the cache is read again and a
  state that allows operation is turned into a grace state; otherwise \<open>e\<close> is thrown.
\<close>

definition on_validation_failure ::
  "platform \<Rightarrow> rat \<Rightarrow> LicenseValidator \<Rightarrow> StateStore \<Rightarrow> string \<Rightarrow> error
     \<Rightarrow> (error + LicenseState) \<times> StateStore" where
  "on_validation_failure rt now v st k e =
     (case instanceof validator_scope e ''NetworkException'' of
        Inl raised \<Rightarrow> (Inl raised, st)
      | Inr isNetwork \<Rightarrow>
          if isNetwork
          then (case StateStore_get rt now st (getValidationKey k) of
                  (Inr (Some cachedState), st') \<Rightarrow>
                    if allowsOperation cachedState
                    then (case toArray cachedState of
                            Inl se \<Rightarrow> inner_catch st' e se
                          | Inr arr \<Rightarrow>
                              (Inr (createGraceState now (stateResolver v) arr (Some k)), st'))
                    else (Inl e, st')
                | (Inr None, st') \<Rightarrow> (Inl e, st')
                | (Inl se, st') \<Rightarrow> inner_catch st' e se)
          else (Inl e, st))"

text \<open>
  The cache step of \<open>resolveLicenseState\<close>, with the cache enabled: a state that needs no
  revalidation is the result of the whole call (\<open>Some\<close>), anything else lets the call go
  on (\<open>None\<close>). Its \<open>catch (e)\<close> tests \<open>e instanceof SignatureException\<close>, has an empty
  body and no \<open>throw\<close>; an exception of the test itself leaves \<open>resolveLicenseState\<close>.
\<close>

definition cache_step ::
  "platform \<Rightarrow> rat \<Rightarrow> StateStore \<Rightarrow> string
     \<Rightarrow> (error + EntitlementState option) \<times> StateStore" where
  "cache_step rt now st0 stateKey =
     (case StateStore_get rt now st0 stateKey of
        (Inr (Some cachedState), st') \<Rightarrow>
          if \<not> needsRevalidation now cachedState 86400
          then (Inr (Some cachedState), st') else (Inr None, st')
      | (Inr None, st') \<Rightarrow> (Inr None, st')
      | (Inl e, st') \<Rightarrow>
          (case instanceof validator_scope e ''SignatureException'' of
             Inl raised \<Rightarrow> (Inl raised, st')
           | Inr b \<Rightarrow> (Inr None, st')))"

text \<open>
  \<open>resolveLicenseState\<close>: \<open>now\<close> is the clock before the request, \<open>now'\<close> the clock when
  its outcome arrives.
\<close>

definition resolveLicenseState ::
  "platform \<Rightarrow> rat \<Rightarrow> rat \<Rightarrow> LicenseValidator \<Rightarrow> string
     \<Rightarrow> error + (string \<times> json) list \<Rightarrow> (error + LicenseState) \<times> StateStore" where
  "resolveLicenseState rt now now' v k outcome =
     (case validateLicenseKey k of
        Inl e \<Rightarrow> (Inl e, stateStore v)
      | Inr u \<Rightarrow>
          (let stateKey = getValidationKey k
           in case (if isCacheEnabled v then cache_step rt now (stateStore v) stateKey
                    else (Inr None, stateStore v)) of
                (Inl raised, st) \<Rightarrow> (Inl raised, st)
              | (Inr (Some cachedState), st) \<Rightarrow>
                  (Inr \<lparr> entitlementState = cachedState, licenseKey = Some k \<rparr>, st)
              | (Inr None, st) \<Rightarrow>
                  (case outcome of
                     Inl e \<Rightarrow> on_validation_failure rt now' v st k e
                   | Inr response \<Rightarrow>
                       (case resolveFromValidation rt now' (stateResolver v) response (Some k) of
                          Inl e \<Rightarrow> on_validation_failure rt now' v st k e
                        | Inr licenseState \<Rightarrow>
                            (Inr licenseState,
                             if isCacheEnabled v
                             then StateStore_set now' st stateKey (entitlementState licenseState) None
                             else st)))))"

text \<open>
  \<open>getLicenseState\<close>: its \<open>catch (e)\<close> tests \<open>e instanceof LicenseException\<close> and returns
  the restricted state when the test holds.
\<close>

definition getLicenseState ::
  "platform \<Rightarrow> rat \<Rightarrow> rat \<Rightarrow> LicenseValidator \<Rightarrow> string
     \<Rightarrow> error + (string \<times> json) list \<Rightarrow> (error + LicenseState) \<times> StateStore" where
  "getLicenseState rt now now' v k outcome =
     (case resolveLicenseState rt now now' v k outcome of
        (Inr licenseState, st) \<Rightarrow> (Inr licenseState, st)
      | (Inl e, st) \<Rightarrow>
          (case instanceof validator_scope e ''LicenseException'' of
             Inl raised \<Rightarrow> (Inl raised, st)
           | Inr isLicense \<Rightarrow>
               if isLicense
               then (Inr (createRestrictedState now' (stateResolver v) (message e) (Some k)), st)
               else (Inl e, st)))"

section \<open>Example inputs\<close>

text \<open>
  Concrete inputs for the instances below. The platform renders an integer-valued number in
  decimal (other numbers do not occur in the instances; they would be cut to their integer
  part), hashes by the identity and parses no date. The verifier accepts the signature
  \<open>c2ln\<close> on any data and nothing else.
\<close>

definition integer_toString :: "rat \<Rightarrow> string" where
  "integer_toString r =
     (if r < 0 then ''-'' @ nat_toString (nat \<lfloor>- r\<rfloor>) else nat_toString (nat \<lfloor>r\<rfloor>))"

definition example_platform :: platform where
  "example_platform =
     \<lparr> number_toString = integer_toString, sha256_hex = (\<lambda>s. s),
       date_getTime = (\<lambda>j. None) \<rparr>"

definition example_verifier :: SignatureVerifier where
  "example_verifier = (\<lambda>data sig. sig = ''c2ln'')"

definition example_resolver :: StateResolver where
  "example_resolver =
     \<lparr> resolver_verifier = Some example_verifier,
       resolver_environment = JStr ''production'', resolver_productId = JNull \<rparr>"

text \<open>
  A state verified at 1600000000 from a valid, active payload and signed \<open>c2ln\<close>, cached
  until 1800000000; the same state with a forged signature, cached until 1800000000 and
  until 1650000000.
\<close>

definition example_state :: EntitlementState where
  "example_state =
     new_EntitlementState 1600000000
       (empty_payload \<lparr> valid := Some (JBool True), status := Some ''active'' \<rparr>) (Some ''c2ln'')"

definition example_entry :: cached_entry where
  "example_entry = \<lparr> entry_state = toObject example_state, expiresAt = 1800000000 \<rparr>"

definition forged_entry :: "rat \<Rightarrow> cached_entry" where
  "forged_entry expires =
     \<lparr> entry_state = (toObject example_state) \<lparr> signature := Some ''forged'' \<rparr>,
       expiresAt = expires \<rparr>"

definition example_store :: "cached_entry \<Rightarrow> StateStore" where
  "example_store entry =
     \<lparr> store = [getValidationKey ''KEY-1'' \<mapsto> entry],
       store_verifier = Some example_verifier, defaultTtl = 300 \<rparr>"

definition empty_store :: StateStore where
  "empty_store = \<lparr> store = Map.empty, store_verifier = None, defaultTtl = 300 \<rparr>"

definition example_validator :: "bool \<Rightarrow> StateStore \<Rightarrow> LicenseValidator" where
  "example_validator cache st =
     \<lparr> isCacheEnabled = cache, stateStore = st, stateResolver = example_resolver \<rparr>"

text \<open>
  A validation response as the server sends it, keys in the order \<open>valid\<close>, \<open>license\<close>,
  \<open>signature\<close>; its text without the signature in that order and in canonical order; and
  a verifier for which \<open>c2ln\<close> is the valid signature of the canonical text and of no
  other data.
\<close>

definition example_response :: "(string \<times> json) list" where
  "example_response =
     [(''valid'', JBool True), (''license'', JObj [(''status'', JStr ''active'')]),
      (''signature'', JStr ''c2ln'')]"

definition as_received_text :: string where
  \<open>as_received_text = ''{"valid":true,"license":{"status":"active"}}''\<close>

definition canonical_text :: string where
  \<open>canonical_text = ''{"license":{"status":"active"},"valid":true}''\<close>

definition canonical_verifier :: SignatureVerifier where
  "canonical_verifier = (\<lambda>data sig. data = canonical_text \<and> sig = ''c2ln'')"

section \<open>Properties of \<open>determineState\<close>\<close>



lemma toLowerCase_Revoked: "toLowerCase ''Revoked'' = ''revoked''"
  by code_simp




text \<open>
  C7. A payload whose status is revoked, suspended or cancelled, in any letter case, is
  INVALID, whatever its validity window, its \<open>valid\<close> flag and its other fields are: the
  status branch comes first.
\<close>

theorem C7_status_forces_invalid:
  assumes "status p = Some s"
      and "toLowerCase s \<in> {''revoked'', ''suspended'', ''cancelled''}"
  shows "determineState now p = STATE_INVALID"
  using assms by (auto simp: determineState_def toLowerCase_def)

theorem C7_status_forces_invalid_witness:
  "determineState 1700000000
     (empty_payload\<lparr>status := Some ''Revoked'', valid := Some (JBool True),
        valid_until := Some 1800000000\<rparr>) = STATE_INVALID"
  using C7_status_forces_invalid
          [of "empty_payload\<lparr>status := Some ''Revoked'', valid := Some (JBool True),
                 valid_until := Some 1800000000\<rparr>" "''Revoked''" 1700000000]
  by (simp add: toLowerCase_Revoked)

section \<open>Properties of the capabilities\<close>

lemma map_of_map_replace:
  "map_of (map (\<lambda>kv. if fst kv = k then (k, v) else kv) kvs) k' =
     (if k' = k then (if k \<in> fst ` set kvs then Some v else None) else map_of kvs k')"
  by (induction kvs) (force simp: image_iff)+

lemma map_of_obj_set:
  "map_of (obj_set k v kvs) k' = (if k' = k then Some v else map_of kvs k')"
proof (cases "k \<in> fst ` set kvs")
  case True
  then show ?thesis by (simp add: obj_set_def map_of_map_replace)
next
  case False
  then have "map_of kvs k = None" by (simp add: map_of_eq_None_iff)
  with False show ?thesis by (auto simp: obj_set_def map_add_def split: option.splits)
qed

lemma map_of_assign_if_defined:
  "k \<noteq> k' \<Longrightarrow> map_of (assign_if_defined k' x c) k = map_of c k"
  by (simp add: assign_if_defined_def map_of_obj_set split: option.splits)

lemma downloads_capability:
  "map_of (extractCapabilities p) ''downloads'' = Some (JBool (determineDownloadCapability p))"
proof -
  obtain c4 where c: "extractCapabilities p =
     (let c5 = obj_set ''downloads'' (JBool (determineDownloadCapability p)) c4;
          c6 = (case license p of
                  Some l \<Rightarrow> assign_if_defined ''max_activations'' (activations_limit l) c5
                | None \<Rightarrow> c5);
          c7 = (case license p of
                  Some l \<Rightarrow> assign_if_defined ''current_activations'' (activations_count l) c6
                | None \<Rightarrow> c6)
      in c7)"
    unfolding extractCapabilities_def by (metis (full_types))
  show ?thesis
    unfolding c by (cases "license p") (simp_all add: map_of_assign_if_defined map_of_obj_set)
qed

lemma toLowerCase_expired: "toLowerCase ''expired'' = ''expired''"
  by code_simp

lemma toLowerCase_Active: "toLowerCase ''Active'' = ''active''"
  by code_simp

text \<open>
  C9, as stated, fails: a payload with \<open>valid === true\<close> and the license status
  \<open>expired\<close> has no \<open>downloads\<close> capability.
\<close>

theorem C9_downloads_counterexample:
  "valid (empty_payload\<lparr>valid := Some (JBool True),
            license := Some \<lparr>license_status = Some ''expired'', license_features = None,
                              activations_limit = None, activations_count = None\<rparr>\<rparr>)
     = Some (JBool True)
   \<and> \<not> hasCapability
         (new_EntitlementState 1700000000
            (empty_payload\<lparr>valid := Some (JBool True),
               license := Some \<lparr>license_status = Some ''expired'', license_features = None,
                                 activations_limit = None, activations_count = None\<rparr>\<rparr>)
            None)
         ''downloads''"
  by (simp add: hasCapability_def new_EntitlementState_def downloads_capability
        determineDownloadCapability_def toLowerCase_expired)

text \<open>
  C9, amended. The \<open>downloads\<close> capability of a state built from a payload is decided by
  the license status alone when the payload has a license with a non-empty status: it is
  true iff that status, in lower case, is active, assigned or available. Only when there is
  no such status is it true iff the \<open>valid\<close> flag is exactly \<open>true\<close>.
\<close>

theorem C9_downloads_capability:
  "hasCapability (new_EntitlementState now p sig) ''downloads'' =
     (case (case license p of None \<Rightarrow> None | Some l \<Rightarrow> str_or_null (license_status l)) of
        Some s \<Rightarrow> toLowerCase s \<in> {''active'', ''assigned'', ''available''}
      | None \<Rightarrow> valid p = Some (JBool True))"
proof -
  have "determineDownloadCapability p =
     (case (case license p of None \<Rightarrow> None | Some l \<Rightarrow> str_or_null (license_status l)) of
        Some s \<Rightarrow> toLowerCase s \<in> {''active'', ''assigned'', ''available''}
      | None \<Rightarrow> valid p = Some (JBool True))"
    by (simp add: determineDownloadCapability_def str_or_null_def split: option.splits)
  then show ?thesis
    by (simp add: hasCapability_def new_EntitlementState_def downloads_capability)
qed

theorem C9_downloads_capability_witness:
  "hasCapability
     (new_EntitlementState 1700000000
        (empty_payload\<lparr>valid := Some (JBool False),
           license := Some \<lparr>license_status = Some ''Active'', license_features = None,
                             activations_limit = None, activations_count = None\<rparr>\<rparr>)
        None)
     ''downloads''
   \<and> hasCapability
       (new_EntitlementState 1700000000 (empty_payload\<lparr>valid := Some (JBool True)\<rparr>) None)
       ''downloads''"
  using C9_downloads_capability
          [of 1700000000
              "empty_payload\<lparr>valid := Some (JBool False),
                 license := Some \<lparr>license_status = Some ''Active'', license_features = None,
                                   activations_limit = None, activations_count = None\<rparr>\<rparr>"
              None]
        C9_downloads_capability
          [of 1700000000 "empty_payload\<lparr>valid := Some (JBool True)\<rparr>" None]
  by (simp add: str_or_null_def empty_payload_def toLowerCase_Active)

section \<open>Properties of the cache\<close>

lemma stringify_dataWithoutSig_nonempty: "JSON_stringify fmt (dataWithoutSig c) \<noteq> []"
  by (simp add: dataWithoutSig_def Let_def)

lemma new_EntitlementState_fields:
  "esState (new_EntitlementState now p sg) = determineState now p"
  "esSignature (new_EntitlementState now p sg) = sg"
  "esLastVerifiedAt (new_EntitlementState now p sg) = now"
  "esMetadata (new_EntitlementState now p sg) = or_else (metadata p) (JObj [])"
  by (simp_all add: new_EntitlementState_def)

lemma toObject_fields:
  "status (toObject es) = None"
  "valid (toObject es) = None"
  "revalidation_failed (toObject es) = None"
  "valid_from (toObject es) = esValidFrom es"
  "valid_until (toObject es) = esValidUntil es"
  "signature (toObject es) = esSignature es"
  "last_verified_at (toObject es) = Some (esLastVerifiedAt es)"
  by (simp_all add: toObject_def empty_payload_def)

lemma fromCache_result:
  "fromCache rt now c verifier = Inr es \<Longrightarrow> es = new_EntitlementState now c (signature c)"
  by (auto simp: fromCache_def split: option.splits sum.splits if_splits)

lemma fromCache_accepts:
  assumes "signature c = Some sg" "sg \<noteq> []" "verifier = Some v"
      and "v (JSON_stringify (number_toString rt) (dataWithoutSig c)) sg"
  shows "fromCache rt now c verifier = Inr (new_EntitlementState now c (Some sg))"
  using assms
  by (simp add: fromCache_def str_or_null_def verify_def stringify_dataWithoutSig_nonempty
        Let_def)

lemma unbound_SignatureError:
  "new_exception entitlement_state_scope ''SignatureError'' msg
     = ReferenceError ''SignatureError is not defined''"
  by (simp add: new_exception_def entitlement_state_scope_def)

lemma fromCache_rejects:
  assumes "signature c = Some sg" "verifier = Some v"
      and "\<not> v (JSON_stringify (number_toString rt) (dataWithoutSig c)) sg"
  shows "fromCache rt now c verifier = Inl (ReferenceError ''SignatureError is not defined'')"
  using assms
  by (simp add: fromCache_def str_or_null_def verify_def stringify_dataWithoutSig_nonempty
        Let_def unbound_SignatureError)

lemma fromCache_unsigned:
  "signature c = None \<Longrightarrow>
   fromCache rt now c verifier = Inl (ReferenceError ''SignatureError is not defined'')"
  by (simp add: fromCache_def str_or_null_def unbound_SignatureError)

lemma StateStore_get_hit:
  assumes "StateStore_get rt now st key = (Inr (Some es), st')"
  shows "\<exists>c. store st key = Some c \<and> \<not> expiresAt c < now
            \<and> es = new_EntitlementState now (entry_state c) (signature (entry_state c))
            \<and> st' = st"
  using assms
  by (auto simp: StateStore_get_def split: option.splits if_splits sum.splits
        dest: fromCache_result)

lemma example_entry_signature: "signature (entry_state example_entry) = Some ''c2ln''"
  by (simp add: example_entry_def example_state_def toObject_fields new_EntitlementState_fields)

lemma example_store_get:
  "StateStore_get example_platform now (example_store example_entry) (getValidationKey ''KEY-1'')
     = (if 1800000000 < now
        then (Inr None, (example_store example_entry)\<lparr>store := Map.empty\<rparr>)
        else (Inr (Some (new_EntitlementState now (toObject example_state) (Some ''c2ln''))),
              example_store example_entry))"
proof -
  have "fromCache example_platform now (entry_state example_entry)
          (store_verifier (example_store example_entry))
      = Inr (new_EntitlementState now (entry_state example_entry) (Some ''c2ln''))"
    by (intro fromCache_accepts[where v = example_verifier])
       (simp_all add: example_entry_signature example_store_def example_verifier_def)
  moreover have "store (example_store example_entry) (getValidationKey ''KEY-1'')
                   = Some example_entry"
    by (simp add: example_store_def)
  moreover have "expiresAt example_entry = 1800000000" "entry_state example_entry = toObject example_state"
    by (simp_all add: example_entry_def)
  ultimately show ?thesis by (simp add: StateStore_get_def example_store_def)
qed

text \<open>
  C4. A state read from the cache is built by the constructor at the time of the read, so
  its \<open>lastVerifiedAt\<close> is that time, not the \<open>last_verified_at\<close> kept in the entry, and at
  that moment \<open>needsRevalidation\<close> is false for every positive interval.
\<close>

theorem C4_cache_read_resets_lastVerifiedAt:
  assumes "StateStore_get rt now st key = (Inr (Some es), st')"
  shows "esLastVerifiedAt es = now
       \<and> (\<forall>interval. 0 < interval \<longrightarrow> \<not> needsRevalidation now es interval)"
  using StateStore_get_hit[OF assms]
  by (auto simp: new_EntitlementState_fields needsRevalidation_def)

text \<open>
  The entry was verified at 1600000000 and is read at 1700000000, more than three years
  of seconds later.
\<close>

theorem C4_cache_read_resets_lastVerifiedAt_witness:
  "last_verified_at (entry_state example_entry) = Some 1600000000
   \<and> esLastVerifiedAt (new_EntitlementState 1700000000 (toObject example_state) (Some ''c2ln''))
       = 1700000000
   \<and> \<not> needsRevalidation 1700000000
         (new_EntitlementState 1700000000 (toObject example_state) (Some ''c2ln'')) 86400"
proof -
  have get: "StateStore_get example_platform 1700000000 (example_store example_entry)
               (getValidationKey ''KEY-1'')
             = (Inr (Some (new_EntitlementState 1700000000 (toObject example_state)
                             (Some ''c2ln''))),
                example_store example_entry)"
    by (simp add: example_store_get)
  have "last_verified_at (entry_state example_entry) = Some 1600000000"
    by (simp add: example_entry_def example_state_def toObject_fields
          new_EntitlementState_fields)
  then show ?thesis
    using C4_cache_read_resets_lastVerifiedAt[OF get] by simp
qed

lemma forged_entry_fields:
  "signature (entry_state (forged_entry x)) = Some ''forged''"
  "expiresAt (forged_entry x) = x"
  "store (example_store (forged_entry x)) (getValidationKey ''KEY-1'') = Some (forged_entry x)"
  "store_verifier (example_store (forged_entry x)) = Some example_verifier"
  by (simp_all add: forged_entry_def example_store_def)

text \<open>
  What \<open>get\<close> does with an entry within its TTL whose signature the verifier rejects: it
  removes the entry, and later reads of the key are misses that throw nothing; but what it
  throws is the \<open>ReferenceError\<close> of \<open>fromCache\<close>, not a signature exception.
\<close>

lemma StateStore_get_forged:
  assumes "store st key = Some c" and "\<not> expiresAt c < now"
      and "store_verifier st = Some v" and "signature (entry_state c) = Some sg"
      and "\<not> v (JSON_stringify (number_toString rt) (dataWithoutSig (entry_state c))) sg"
  shows "StateStore_get rt now st key
           = (Inl (ReferenceError ''SignatureError is not defined''),
              st\<lparr>store := (store st)(key := None)\<rparr>)
       \<and> (\<forall>now'. StateStore_get rt now' (st\<lparr>store := (store st)(key := None)\<rparr>) key
                    = (Inr None, st\<lparr>store := (store st)(key := None)\<rparr>))"
proof -
  have "fromCache rt now (entry_state c) (store_verifier st)
          = Inl (ReferenceError ''SignatureError is not defined'')"
    using fromCache_rejects[OF assms(4) assms(3) assms(5)] .
  then show ?thesis
    using assms(1,2) by (simp add: StateStore_get_def)
qed

text \<open>
  C5, on the code. The entry is within its TTL and its signature \<open>forged\<close> fails
  verification. The first \<open>get\<close> removes the entry and a second \<open>get\<close> one minute later is a
  miss that throws nothing, as the claim says; but the first \<open>get\<close> throws
  \<open>ReferenceError\<close>, not a signature exception: \<open>fromCache\<close> constructs \<open>SignatureError\<close>,
  which the file of \<open>EntitlementState\<close> does not import.
\<close>

theorem C5_forged_entry_raises_ReferenceError:
  "\<not> example_verifier
        (JSON_stringify (number_toString example_platform)
           (dataWithoutSig (entry_state (forged_entry 1800000000))))
        ''forged''
   \<and> StateStore_get example_platform 1700000000 (example_store (forged_entry 1800000000))
         (getValidationKey ''KEY-1'')
       = (Inl (ReferenceError ''SignatureError is not defined''),
          (example_store (forged_entry 1800000000))
            \<lparr>store := (store (example_store (forged_entry 1800000000)))
                        (getValidationKey ''KEY-1'' := None)\<rparr>)
   \<and> StateStore_get example_platform 1700000060
         ((example_store (forged_entry 1800000000))
            \<lparr>store := (store (example_store (forged_entry 1800000000)))
                        (getValidationKey ''KEY-1'' := None)\<rparr>)
         (getValidationKey ''KEY-1'')
       = (Inr None,
          (example_store (forged_entry 1800000000))
            \<lparr>store := (store (example_store (forged_entry 1800000000)))
                        (getValidationKey ''KEY-1'' := None)\<rparr>)"
proof -
  have live: "\<not> expiresAt (forged_entry 1800000000) < 1700000000"
    by (simp add: forged_entry_fields)
  have bad: "\<not> example_verifier
                 (JSON_stringify (number_toString example_platform)
                    (dataWithoutSig (entry_state (forged_entry 1800000000))))
                 ''forged''"
    by (simp add: example_verifier_def)
  show ?thesis
    using StateStore_get_forged
            [OF forged_entry_fields(3) live forged_entry_fields(4) forged_entry_fields(1) bad]
          bad
    by blast
qed

text \<open>
  An entry whose object has no signature is never returned: whatever verifier the store
  has, and with none, a \<open>get\<close> that finds the entry within its TTL throws and removes the
  entry, and no \<open>get\<close> returns a state for it. What is thrown is the \<open>ReferenceError\<close> of
  \<open>fromCache\<close>.
\<close>

lemma StateStore_get_unsigned:
  assumes "store st key = Some c" and "signature (entry_state c) = None"
  shows "(\<not> expiresAt c < now \<longrightarrow>
            StateStore_get rt now st key
              = (Inl (ReferenceError ''SignatureError is not defined''),
                 st\<lparr>store := (store st)(key := None)\<rparr>))
       \<and> (\<forall>es. fst (StateStore_get rt now st key) \<noteq> Inr (Some es))"
  using assms by (simp add: StateStore_get_def fromCache_unsigned)

text \<open>
  C10, on the code. The restricted state made by the resolver carries no signature. Stored
  at 1700000000 in a store without verifier, it is removed by the read one minute later and
  is not returned, as the claim says; but the read throws \<open>ReferenceError\<close>, not a
  signature exception, for the reason given at C5.
\<close>

theorem C10_unsigned_entry_raises_ReferenceError:
  "signature
     (toObject
        (entitlementState
           (createRestrictedState 1700000000 example_resolver ''timeout'' (Some ''KEY-1''))))
     = None
   \<and> StateStore_get example_platform 1700000060
       (StateStore_set 1700000000 empty_store (getValidationKey ''KEY-1'')
          (entitlementState
             (createRestrictedState 1700000000 example_resolver ''timeout'' (Some ''KEY-1'')))
          None)
       (getValidationKey ''KEY-1'')
     = (Inl (ReferenceError ''SignatureError is not defined''), empty_store)"
proof -
  let ?es = "entitlementState
               (createRestrictedState 1700000000 example_resolver ''timeout'' (Some ''KEY-1''))"
  let ?c = "\<lparr> entry_state = toObject ?es, expiresAt = 1700000300 \<rparr>"
  let ?st = "StateStore_set 1700000000 empty_store (getValidationKey ''KEY-1'') ?es None"
  have stored: "store ?st (getValidationKey ''KEY-1'') = Some ?c"
    by (simp add: StateStore_set_def empty_store_def num_or_def)
  have unsigned: "signature (toObject ?es) = None"
    by (simp add: toObject_fields createRestrictedState_def new_EntitlementState_fields)
  then have unsigned': "signature (entry_state ?c) = None" by simp
  have after: "?st\<lparr>store := (store ?st)(getValidationKey ''KEY-1'' := None)\<rparr> = empty_store"
    by (simp add: StateStore_set_def empty_store_def)
  show ?thesis
    using StateStore_get_unsigned[OF stored unsigned', of 1700000060 example_platform] unsigned
    by (simp add: after)
qed

section \<open>Properties of the validator\<close>

lemma instanceof_in_validator:
  "instanceof validator_scope e ''NetworkException''
     = Inl (TypeError ''Right-hand side of instanceof is not callable'')"
  "instanceof validator_scope e ''SignatureException''
     = Inl (TypeError ''Right-hand side of instanceof is not callable'')"
  "instanceof validator_scope e ''LicenseException''
     = Inl (TypeError ''Right-hand side of instanceof is not callable'')"
  by (simp_all add: instanceof_def validator_scope_def required_def exceptions_exports_def)

text \<open>
  Whatever validation raises, the handler raises \<open>TypeError\<close> at its first test and leaves
  the store alone.
\<close>

lemma on_validation_failure_raises:
  "on_validation_failure rt now v st k e
     = (Inl (TypeError ''Right-hand side of instanceof is not callable''), st)"
  by (simp add: on_validation_failure_def instanceof_in_validator)

text \<open>
  When validation fails, \<open>resolveLicenseState\<close> either throws that \<open>TypeError\<close> or has
  returned, before any request, the state it has just read from the cache. No other state
  comes back.
\<close>

lemma resolveLicenseState_failure:
  assumes "validateLicenseKey k = Inr ()"
  shows "fst (resolveLicenseState rt now now' v k (Inl e))
           = Inl (TypeError ''Right-hand side of instanceof is not callable'')
       \<or> (isCacheEnabled v
          \<and> (\<exists>es st'. StateStore_get rt now (stateStore v) (getValidationKey k)
                          = (Inr (Some es), st')
                \<and> resolveLicenseState rt now now' v k (Inl e)
                    = (Inr \<lparr> entitlementState = es, licenseKey = Some k \<rparr>, st')))"
  using assms
  by (auto simp: resolveLicenseState_def cache_step_def on_validation_failure_raises
        instanceof_in_validator Let_def
        split: prod.splits sum.splits option.splits if_splits)

lemma determineState_toObject_unbounded:
  "esValidFrom es = None \<Longrightarrow> esValidUntil es = None \<Longrightarrow>
   determineState now (toObject es) = STATE_ACTIVE"
  by (simp add: determineState_def determineState_rest_def toObject_fields)

lemma example_state_unbounded:
  "esValidFrom example_state = None" "esValidUntil example_state = None"
  by (simp_all add: example_state_def new_EntitlementState_def empty_payload_def
        num_or_null_def)

lemma example_key_accepted: "validateLicenseKey ''KEY-1'' = Inr ()"
  by (simp add: validateLicenseKey_def trim_def is_whitespace_def)

text \<open>
  C1, on the code. The store holds a state signed \<open>c2ln\<close>, which the verifier accepts; read
  at 1700000030 it is ACTIVE and allows operation. The validator does not consult the cache
  before the request, the request fails with a network exception, and \<open>resolveLicenseState\<close>
  returns no grace state: its handler tests \<open>e instanceof NetworkException\<close>, a name the
  exceptions module does not export, and the test raises \<open>TypeError\<close>, which is what the
  call throws. The store is not read.
\<close>

theorem C1_network_failure_raises_TypeError:
  "StateStore_get example_platform 1700000030 (example_store example_entry)
       (getValidationKey ''KEY-1'')
     = (Inr (Some (new_EntitlementState 1700000030 (toObject example_state) (Some ''c2ln''))),
        example_store example_entry)
   \<and> esState (new_EntitlementState 1700000030 (toObject example_state) (Some ''c2ln''))
       = STATE_ACTIVE
   \<and> allowsOperation (new_EntitlementState 1700000030 (toObject example_state) (Some ''c2ln''))
   \<and> validator_scope ''NetworkException'' = Undefined
   \<and> resolveLicenseState example_platform 1700000000 1700000030
        (example_validator False (example_store example_entry)) ''KEY-1''
        (Inl (NetworkException ''timeout''))
     = (Inl (TypeError ''Right-hand side of instanceof is not callable''),
        example_store example_entry)"
proof -
  have active:
    "esState (new_EntitlementState 1700000030 (toObject example_state) (Some ''c2ln''))
       = STATE_ACTIVE"
    by (simp add: new_EntitlementState_fields determineState_toObject_unbounded
          example_state_unbounded)
  have unbound: "validator_scope ''NetworkException'' = Undefined"
    by (simp add: validator_scope_def required_def exceptions_exports_def)
  have thrown:
    "resolveLicenseState example_platform 1700000000 1700000030
        (example_validator False (example_store example_entry)) ''KEY-1''
        (Inl (NetworkException ''timeout''))
     = (Inl (TypeError ''Right-hand side of instanceof is not callable''),
        example_store example_entry)"
    by (simp add: resolveLicenseState_def example_key_accepted example_validator_def
          on_validation_failure_raises)
  show ?thesis
    using active unbound thrown by (simp add: example_store_get allowsOperation_def)
qed

text \<open>
  With the cache switched on the same store answers before any request: the state read from
  the cache never needs revalidation at the moment it is read, so it is returned as it is,
  ACTIVE, and the outcome of validation plays no part.
\<close>

lemma resolveLicenseState_cached_hit:
  "resolveLicenseState example_platform 1700000000 1700000030
     (example_validator True (example_store example_entry)) ''KEY-1'' outcome
   = (Inr \<lparr> entitlementState =
               new_EntitlementState 1700000000 (toObject example_state) (Some ''c2ln''),
             licenseKey = Some ''KEY-1'' \<rparr>,
      example_store example_entry)"
  by (simp add: resolveLicenseState_def cache_step_def example_key_accepted
        example_validator_def example_store_get needsRevalidation_def
        new_EntitlementState_fields)

text \<open>
  The handler of \<open>getLicenseState\<close> never gets to \<open>createRestrictedState\<close>: whatever
  \<open>resolveLicenseState\<close> throws, the test \<open>e instanceof LicenseException\<close> raises
  \<open>TypeError\<close>.
\<close>

lemma getLicenseState_failure:
  assumes "resolveLicenseState rt now now' v k outcome = (Inl e, st)"
  shows "getLicenseState rt now now' v k outcome
           = (Inl (TypeError ''Right-hand side of instanceof is not callable''), st)"
  using assms by (simp add: getLicenseState_def instanceof_in_validator)

text \<open>
  Behind that, the state \<open>createRestrictedState\<close> makes is ACTIVE: its payload has the
  status \<open>restricted\<close>, which \<open>determineState\<close> does not know, no validity window, \<open>valid\<close>
  false and no revalidation mark, and so it reaches the default branch.
\<close>

lemma createRestrictedState_is_active:
  "getState (createRestrictedState now r reason key) = STATE_ACTIVE"
  "isValid (createRestrictedState now r reason key)"
  "getMetadata (createRestrictedState now r reason key) = JObj [(''reason'', JStr reason)]"
  by (simp_all add: getState_def isValid_def allowsOperation_def getMetadata_def
        createRestrictedState_def new_EntitlementState_def determineState_def
        determineState_rest_def empty_payload_def Let_def toLowerCase_def or_else_def)

text \<open>
  C2, on the code. The request fails with a network exception and nothing is cached;
  \<open>getLicenseState\<close> returns no state at all: \<open>resolveLicenseState\<close> throws, the handler
  tests \<open>e instanceof LicenseException\<close>, a name the exceptions module does not export, and
  the \<open>TypeError\<close> of that test is what \<open>getLicenseState\<close> throws.
\<close>

theorem C2_failure_raises_TypeError:
  "validator_scope ''LicenseException'' = Undefined
   \<and> getLicenseState example_platform 1700000000 1700000030
       (example_validator True empty_store) ''KEY-1'' (Inl (NetworkException ''timeout''))
     = (Inl (TypeError ''Right-hand side of instanceof is not callable''), empty_store)"
proof -
  have unbound: "validator_scope ''LicenseException'' = Undefined"
    by (simp add: validator_scope_def required_def exceptions_exports_def)
  have "resolveLicenseState example_platform 1700000000 1700000030
          (example_validator True empty_store) ''KEY-1'' (Inl (NetworkException ''timeout''))
        = (Inl (TypeError ''Right-hand side of instanceof is not callable''), empty_store)"
    by (simp add: resolveLicenseState_def cache_step_def example_key_accepted
          example_validator_def empty_store_def StateStore_get_def
          on_validation_failure_raises)
  from getLicenseState_failure[OF this] unbound show ?thesis
    by simp
qed

section \<open>Properties of signature verification\<close>

text \<open>
  What does hold of \<open>resolveFromValidation\<close>: with a verifier and a non-empty signature
  string, a mismatch on the text handed to the verifier is a signature exception, raised
  before the response is normalised.
\<close>

lemma stringify_object_nonempty: "JSON_stringify fmt (JObj kvs) \<noteq> []"
  by simp

lemma resolveFromValidation_mismatch:
  assumes "resolver_verifier r = Some v" and "map_of response ''signature'' = Some (JStr sg)"
      and "sg \<noteq> []" and "\<not> v (verification_payload rt response) sg"
  shows "resolveFromValidation rt now r response key
           = Inl (SignatureException ''Response signature verification failed'')"
proof -
  have "verification_payload rt response \<noteq> []"
    unfolding verification_payload_def Let_def by (rule stringify_object_nonempty)
  then show ?thesis
    using assms
    by (simp add: resolveFromValidation_def truthy_opt_def verifySignature_def verify_def)
qed

text \<open>
  C3, on the code. The text \<open>resolveFromValidation\<close> hands to the verifier is the
  response without its signature in the key order of the response, not its canonical JSON:
  for the example response the two differ, and a response whose signature is valid for
  the canonical text is rejected with a signature exception.
\<close>

theorem C3_verified_text_is_not_canonical:
  "verification_payload example_platform example_response = as_received_text
   \<and> canonicalizeJson (number_toString example_platform)
         (JObj (obj_delete ''signature'' example_response)) = canonical_text
   \<and> as_received_text \<noteq> canonical_text
   \<and> canonical_verifier canonical_text ''c2ln''
   \<and> resolveFromValidation example_platform 1700000000
         \<lparr> resolver_verifier = Some canonical_verifier,
           resolver_environment = JNull, resolver_productId = JNull \<rparr>
         example_response (Some ''KEY-1'')
       = Inl (SignatureException ''Response signature verification failed'')"
proof -
  let ?r = "\<lparr> resolver_verifier = Some canonical_verifier,
             resolver_environment = JNull, resolver_productId = JNull \<rparr>"
  have received: "verification_payload example_platform example_response = as_received_text"
    by code_simp
  have canonical:
    "canonicalizeJson (number_toString example_platform)
       (JObj (obj_delete ''signature'' example_response)) = canonical_text"
    by code_simp
  have differ: "as_received_text \<noteq> canonical_text"
    by code_simp
  have signed: "canonical_verifier canonical_text ''c2ln''"
    by (simp add: canonical_verifier_def)
  have "\<not> canonical_verifier (verification_payload example_platform example_response) ''c2ln''"
    using received differ by (simp add: canonical_verifier_def)
  then have rejected:
    "resolveFromValidation example_platform 1700000000 ?r example_response (Some ''KEY-1'')
       = Inl (SignatureException ''Response signature verification failed'')"
    by (intro resolveFromValidation_mismatch[where v = canonical_verifier and sg = "''c2ln''"])
       (simp_all add: example_response_def)
  show ?thesis
    using received canonical differ signed rejected by simp
qed

section \<open>Properties of \<open>canonicalizeJson\<close>\<close>













end
